theory Spec2Isabelle
  imports Complex_Main "HOL-Library.Product_Lexorder" "HOL-Library.AList"
begin

section \<open>Exceptions\<close>

text \<open>
  The Python exceptions that the modelled functions of \<^verbatim>\<open>src/main.py\<close> can raise.
  \<open>SourceUnavailable\<close> stands for whatever the record source (the gspread client) raises
  while a sheet is being fetched.
\<close>

datatype py_exn =
    KeyError
  | AttributeError
  | IndexError
  | ValueError
  | ZeroDivisionError
  | SourceUnavailable

section \<open>The in-memory cache (\<^verbatim>\<open>_get_cached\<close>)\<close>

text \<open>
  \<^verbatim>\<open>
  _cache = {
      "users_master": {"ts": 0, "data": None},
      "subscriptions": {"ts": 0, "data": None},
  }

  def _get_cached(key, loader):
      now = time.time()
      entry = _cache[key]
      if entry["data"] is None or (now - entry["ts"]) > CACHE_TTL_SECONDS:
          entry["data"] = loader()
          entry["ts"] = now
      return entry["data"]
  \<close>
  An entry is a record of the fetch time and the stored data, \<open>None\<close> for Python's
  \<^verbatim>\<open>None\<close>. The module-level dictionary is threaded through explicitly. Times are
  real numbers (the clock reading \<open>now\<close> is an argument), the TTL is the integer
  \<^verbatim>\<open>CACHE_TTL_SECONDS\<close>. The loader reads an outside world \<open>'w\<close> (the spreadsheet
  service) and either raises or returns a value; it is run only where the source calls
  it, so the world that comes back shows whether it ran.
\<close>

record 'a entry =
  ts :: real
  data :: "'a option"

type_synonym 'a cache = "string \<rightharpoonup> 'a entry"

type_synonym ('a, 'w) loader = "'w \<Rightarrow> (py_exn + 'a) \<times> 'w"

definition initial_cache :: "'a cache" where
  "initial_cache =
     [''users_master'' \<mapsto> \<lparr>ts = 0, data = None\<rparr>,
      ''subscriptions'' \<mapsto> \<lparr>ts = 0, data = None\<rparr>]"

text \<open>The refresh of lines 83-84: the entry is written only after the loader returned.\<close>

definition refresh ::
  "string \<Rightarrow> ('a, 'w) loader \<Rightarrow> real \<Rightarrow> 'a cache \<times> 'w \<Rightarrow> (py_exn + 'a) \<times> 'a cache \<times> 'w" where
  "refresh key loader now s =
     (case s of (c, w) \<Rightarrow>
        (case loader w of
           (Inl e, w') \<Rightarrow> (Inl e, c, w')
         | (Inr d, w') \<Rightarrow> (Inr d, c(key \<mapsto> \<lparr>ts = now, data = Some d\<rparr>), w')))"

definition get_cached ::
  "int \<Rightarrow> string \<Rightarrow> ('a, 'w) loader \<Rightarrow> real \<Rightarrow> 'a cache \<times> 'w \<Rightarrow> (py_exn + 'a) \<times> 'a cache \<times> 'w" where
  "get_cached ttl key loader now s =
     (case s of (c, w) \<Rightarrow>
        (case c key of
           None \<Rightarrow> (Inl KeyError, c, w)
         | Some entry \<Rightarrow>
             (case data entry of
                None \<Rightarrow> refresh key loader now (c, w)
              | Some d \<Rightarrow>
                  if now - ts entry > real_of_int ttl
                  then refresh key loader now (c, w)
                  else (Inr d, c, w))))"

text \<open>
  A loader that counts its invocations in the world, used to observe whether
  \<open>get_cached\<close> called the loader: the counter goes up by one at each call.
\<close>

definition counting :: "('a, 'w) loader \<Rightarrow> ('a, nat \<times> 'w) loader" where
  "counting loader s =
     (case s of (n, w) \<Rightarrow> (case loader w of (r, w') \<Rightarrow> (r, (Suc n, w'))))"

definition calls :: "(py_exn + 'a) \<times> 'a cache \<times> (nat \<times> 'w) \<Rightarrow> nat" where
  "calls r = fst (snd (snd r))"


text \<open>Concrete loaders and caches used to evaluate the model at explicit inputs.\<close>

definition failing_loader :: "(string, nat) loader" where
  "failing_loader w = (Inl SourceUnavailable, Suc w)"

definition fresh_loader :: "(string, nat) loader" where
  "fresh_loader w = (Inr ''fresh'', Suc w)"

definition stored_cache :: "real \<Rightarrow> string \<Rightarrow> string cache" where
  "stored_cache t d = initial_cache(''users_master'' \<mapsto> \<lparr>ts = t, data = Some d\<rparr>)"

section \<open>The dashboard script (\<^verbatim>\<open>normalizeKey\<close>, \<^verbatim>\<open>findColumn\<close>, \<^verbatim>\<open>groupCounts\<close>)\<close>

text \<open>
  The script embedded in \<^verbatim>\<open>DASHBOARD_HTML\<close> works on the rows of the \<^verbatim>\<open>/data\<close>
  response. A row is a JSON object: its own properties in the order \<^verbatim>\<open>Object.keys\<close>
  lists them. Strings are lists of 8-bit code units. \<open>JUndefined\<close> is what reading a
  missing property gives, \<open>JBuiltin p\<close> the function or object that the property \<open>p\<close> of
  \<^verbatim>\<open>Object.prototype\<close> holds.
\<close>

datatype jsval = JUndefined | JNull | JBool bool | JNum rat | JStr string | JBuiltin string

type_synonym js_row = "(string \<times> jsval) list"

text \<open>
  Every object written \<^verbatim>\<open>{}\<close>, and every row, inherits the properties of
  \<^verbatim>\<open>Object.prototype\<close>; all of them hold functions or objects, which are truthy.
  Reading \<^verbatim>\<open>o[k]\<close> gives the own property when there is one, the inherited one
  otherwise, and \<^verbatim>\<open>undefined\<close> when there is neither.
\<close>

definition object_prototype :: "string list" where
  "object_prototype =
     [''constructor'', ''__defineGetter__'', ''__defineSetter__'', ''hasOwnProperty'',
      ''__lookupGetter__'', ''__lookupSetter__'', ''isPrototypeOf'', ''propertyIsEnumerable'',
      ''toString'', ''valueOf'', ''__proto__'', ''toLocaleString'']"

text \<open>
  \<^verbatim>\<open>
  function normalizeKey(key) {
    return String(key).toLowerCase().replace(/[^a-z0-9]/g, "");
  }
  \<close>
  \<open>toLowerCase_char\<close> is \<^verbatim>\<open>toLowerCase\<close> on the letters A-Z; every other code unit
  below 256 is lowered to a code unit outside a-z and 0-9, which the replacement removes
  either way.
\<close>

definition toLowerCase_char :: "char \<Rightarrow> char" where
  "toLowerCase_char c =
     (if 65 \<le> (of_char c :: nat) \<and> (of_char c :: nat) \<le> 90
      then char_of (of_char c + (32 :: nat)) else c)"

definition is_a_z0_9 :: "char \<Rightarrow> bool" where
  "is_a_z0_9 c =
     ((97 \<le> (of_char c :: nat) \<and> (of_char c :: nat) \<le> 122) \<or>
      (48 \<le> (of_char c :: nat) \<and> (of_char c :: nat) \<le> 57))"

definition normalizeKey :: "string \<Rightarrow> string" where
  "normalizeKey key = filter is_a_z0_9 (map toLowerCase_char key)"

text \<open>
  \<^verbatim>\<open>
  function findColumn(rows, candidates) {
    if (!rows || rows.length === 0) return null;
    const keys = Object.keys(rows[0]);
    const map = {};
    keys.forEach(k => { map[normalizeKey(k)] = k; });
    for (const c of candidates) {
      const hit = map[normalizeKey(c)];
      if (hit) return hit;
    }
    return null;
  }
  \<close>
  \<open>key_map\<close> holds the own properties of \<^verbatim>\<open>map\<close>; a later key overwrites an earlier one
  with the same normalized form. \<open>first_hit\<close> is the loop: an own property that is the
  empty string is falsy and skipped, and where \<^verbatim>\<open>map\<close> has no own property the
  inherited one, if any, is the hit. The result is a column name, an inherited built-in,
  or \<^verbatim>\<open>null\<close>.
\<close>

datatype found = Column string | Builtin string | Null

definition key_map :: "string list \<Rightarrow> (string \<rightharpoonup> string)" where
  "key_map keys = fold (\<lambda>k m. m(normalizeKey k \<mapsto> k)) keys Map.empty"

fun first_hit :: "(string \<rightharpoonup> string) \<Rightarrow> string list \<Rightarrow> found" where
  "first_hit m [] = Null"
| "first_hit m (c # cs) =
     (case m (normalizeKey c) of
        Some k \<Rightarrow> if k = [] then first_hit m cs else Column k
      | None \<Rightarrow>
          if normalizeKey c \<in> set object_prototype then Builtin (normalizeKey c)
          else first_hit m cs)"

definition findColumn :: "js_row list \<Rightarrow> string list \<Rightarrow> found" where
  "findColumn rows candidates =
     (case rows of
        [] \<Rightarrow> Null
      | r # _ \<Rightarrow> first_hit (key_map (map fst r)) candidates)"

text \<open>
  \<^verbatim>\<open>
  function groupCounts(rows, col) {
    if (!col) return null;
    const counts = {};
    rows.forEach(r => {
      const raw = r[col];
      const key = String(raw ?? "Unknown").trim() || "Unknown";
      counts[key] = (counts[key] || 0) + 1;
    });
    return counts;
  }
  \<close>
  The text that \<^verbatim>\<open>String\<close> gives for a number and for a built-in function is fixed by
  the JavaScript engine and taken as a parameter (\<open>js_runtime\<close>). \<open>property_key\<close> is the
  property name that \<^verbatim>\<open>r[col]\<close> reads. \<open>trim\<close> removes the white space and line
  terminators below code 256. A value of \<^verbatim>\<open>counts\<close> is a number (\<open>Count\<close>) or, after
  \<^verbatim>\<open>+\<close> met something that is not a number, a string (\<open>Text\<close>). \<open>bump\<close> is the
  assignment in the loop body: it reads \<^verbatim>\<open>counts[key]\<close> through the prototype, and an
  assignment of a number or string to \<^verbatim>\<open>__proto__\<close> is ignored by the engine.
\<close>

record js_runtime =
  number_to_string :: "rat \<Rightarrow> string"
  builtin_to_string :: "string \<Rightarrow> string"

definition js_get :: "js_row \<Rightarrow> string \<Rightarrow> jsval" where
  "js_get r k =
     (case map_of r k of
        Some v \<Rightarrow> v
      | None \<Rightarrow> if k \<in> set object_prototype then JBuiltin k else JUndefined)"

definition property_key :: "js_runtime \<Rightarrow> found \<Rightarrow> string" where
  "property_key rt col =
     (case col of
        Column k \<Rightarrow> k
      | Builtin p \<Rightarrow> builtin_to_string rt p
      | Null \<Rightarrow> ''null'')"

definition js_String :: "js_runtime \<Rightarrow> jsval \<Rightarrow> string" where
  "js_String rt v =
     (case v of
        JUndefined \<Rightarrow> ''undefined''
      | JNull \<Rightarrow> ''null''
      | JBool b \<Rightarrow> (if b then ''true'' else ''false'')
      | JNum x \<Rightarrow> number_to_string rt x
      | JStr s \<Rightarrow> s
      | JBuiltin p \<Rightarrow> builtin_to_string rt p)"

definition is_whitespace :: "char \<Rightarrow> bool" where
  "is_whitespace c = ((of_char c :: nat) \<in> {9, 10, 11, 12, 13, 32, 160})"

definition trim :: "string \<Rightarrow> string" where
  "trim s = rev (dropWhile is_whitespace (rev (dropWhile is_whitespace s)))"

definition group_key :: "js_runtime \<Rightarrow> jsval \<Rightarrow> string" where
  "group_key rt raw =
     (let s = trim (js_String rt (if raw = JUndefined \<or> raw = JNull then JStr ''Unknown'' else raw))
      in if s = [] then ''Unknown'' else s)"

datatype tally = Count nat | Text string

definition bump :: "js_runtime \<Rightarrow> (string \<rightharpoonup> tally) \<Rightarrow> string \<Rightarrow> (string \<rightharpoonup> tally)" where
  "bump rt counts key =
     (let v = (case counts key of
                 Some (Count n) \<Rightarrow> Count (n + 1)
               | Some (Text s) \<Rightarrow> if s = [] then Count 1 else Text (s @ ''1'')
               | None \<Rightarrow>
                   if key \<in> set object_prototype
                   then Text (builtin_to_string rt key @ ''1'')
                   else Count 1)
      in if key = ''__proto__'' then counts else counts(key \<mapsto> v))"

definition groupCounts ::
  "js_runtime \<Rightarrow> js_row list \<Rightarrow> found \<Rightarrow> (string \<rightharpoonup> tally) option" where
  "groupCounts rt rows col =
     (if col = Null \<or> col = Column [] then None
      else Some (fold (\<lambda>r counts. bump rt counts (group_key rt (js_get r (property_key rt col))))
                   rows Map.empty))"

text \<open>The rows of the example in the specification.\<close>

definition risk_rows :: "js_row list" where
  "risk_rows = [[(''Risk'', JStr '' High '')], [(''Risk'', JStr [])], [(''Risk'', JNull)]]"

text \<open>
  \<open>counted m key n\<close>: in the object \<open>m\<close> the key holds the count \<open>n\<close>, where a key that was
  never counted is absent.
\<close>

definition counted :: "(string \<rightharpoonup> tally) \<Rightarrow> string \<Rightarrow> nat \<Rightarrow> bool" where
  "counted m key n = (if n = 0 then m key = None else m key = Some (Count n))"

section \<open>Data frames and the pandas operations the module uses\<close>

text \<open>
  The Python part of \<^verbatim>\<open>src/main.py\<close> works on pandas data frames. The model keeps
  what the module's functions read: the column names with their dtype (only whether a
  column is \<^verbatim>\<open>datetime64\<close> matters to the code) and the rows, each an association list
  from column name to cell. A timestamp is given by its calendar fields; \<open>PyNone\<close>, \<open>NaN\<close>
  and \<open>NaT\<close> are Python's \<^verbatim>\<open>None\<close> and pandas' two missing values.
\<close>

record timestamp =
  year :: nat
  month :: nat
  day :: nat
  hour :: nat
  minute :: nat
  second :: nat
  nanosecond :: nat

datatype cell = PyNone | NaN | NaT | Str string | Num rat | TS timestamp

datatype dtype = Object | Datetime64

type_synonym pyrecord = "(string \<times> cell) list"

record dataframe =
  columns :: "(string \<times> dtype) list"
  rows :: "pyrecord list"

text \<open>
  \<open>cell_of\<close> reads a cell (a column absent from a row reads as \<open>NaN\<close>, which is how
  \<^verbatim>\<open>pd.DataFrame\<close> fills it), \<open>column\<close> is \<^verbatim>\<open>df[name]\<close>, \<open>has_column\<close> is
  \<^verbatim>\<open>name in df.columns\<close>, \<open>getattr\<close> is the attribute access \<^verbatim>\<open>df.Name\<close>, which raises
  \<^verbatim>\<open>AttributeError\<close> for a name that is no column, and \<open>set_column\<close> is the assignment
  \<^verbatim>\<open>df[name] = values\<close>.
\<close>

definition cell_of :: "pyrecord \<Rightarrow> string \<Rightarrow> cell" where
  "cell_of r name = (case map_of r name of Some v \<Rightarrow> v | None \<Rightarrow> NaN)"

definition column :: "dataframe \<Rightarrow> string \<Rightarrow> cell list" where
  "column df name = map (\<lambda>r. cell_of r name) (rows df)"

definition has_column :: "dataframe \<Rightarrow> string \<Rightarrow> bool" where
  "has_column df name = (name \<in> set (map fst (columns df)))"

definition getattr :: "dataframe \<Rightarrow> string \<Rightarrow> py_exn + cell list" where
  "getattr df name = (if has_column df name then Inr (column df name) else Inl AttributeError)"

definition set_column :: "dataframe \<Rightarrow> string \<Rightarrow> dtype \<Rightarrow> cell list \<Rightarrow> dataframe" where
  "set_column df name dt cells =
     \<lparr>columns = AList.update name dt (columns df),
      rows = map2 (\<lambda>r v. AList.update name v r) (rows df) cells\<rparr>"

text \<open>
  \<^verbatim>\<open>pd.DataFrame(records)\<close> for a list of dictionaries: the columns are the keys in the
  order of their first appearance, every row gets every column, and no column built from
  sheet values is \<^verbatim>\<open>datetime64\<close>.
\<close>

fun first_seen :: "'a list \<Rightarrow> 'a list" where
  "first_seen [] = []"
| "first_seen (x # xs) = x # first_seen (removeAll x xs)"

definition DataFrame :: "pyrecord list \<Rightarrow> dataframe" where
  "DataFrame recs =
     (let cols = first_seen (concat (map (map fst) recs))
      in \<lparr>columns = map (\<lambda>c. (c, Object)) cols,
          rows = map (\<lambda>r. map (\<lambda>c. (c, cell_of r c)) cols) recs\<rparr>)"

text \<open>
  \<^verbatim>\<open>
  def _parse_timestamp(df: pd.DataFrame) -> pd.DataFrame:
      if "Timestamp" in df.columns:
          df["Timestamp"] = pd.to_datetime(df["Timestamp"])
      return df
  \<close>
  \<^verbatim>\<open>pd.to_datetime\<close> is called with its default \<^verbatim>\<open>errors="raise"\<close>: one value that cannot
  be converted raises (a \<^verbatim>\<open>ValueError\<close>) for the whole column. How pandas reads one
  string or number is a parameter \<open>parse\<close> of the model: \<open>Unparseable\<close> when pandas cannot
  convert the value, \<open>Missing\<close> when it reads it as \<^verbatim>\<open>NaT\<close> (the empty string), and the
  instant otherwise. Missing values become \<^verbatim>\<open>NaT\<close> and instants stay as they are.
\<close>

datatype parsed = Unparseable | Missing | Instant timestamp

definition to_datetime_cell :: "(cell \<Rightarrow> parsed) \<Rightarrow> cell \<Rightarrow> py_exn + cell" where
  "to_datetime_cell parse c =
     (case c of
        PyNone \<Rightarrow> Inr NaT
      | NaN \<Rightarrow> Inr NaT
      | NaT \<Rightarrow> Inr NaT
      | TS t \<Rightarrow> Inr (TS t)
      | _ \<Rightarrow>
         (case parse c of
            Unparseable \<Rightarrow> Inl ValueError
          | Missing \<Rightarrow> Inr NaT
          | Instant t \<Rightarrow> Inr (TS t)))"

fun to_datetime :: "(cell \<Rightarrow> parsed) \<Rightarrow> cell list \<Rightarrow> py_exn + cell list" where
  "to_datetime parse [] = Inr []"
| "to_datetime parse (c # cs) =
     (case to_datetime_cell parse c of
        Inl e \<Rightarrow> Inl e
      | Inr v \<Rightarrow>
         (case to_datetime parse cs of
            Inl e \<Rightarrow> Inl e
          | Inr vs \<Rightarrow> Inr (v # vs)))"

definition parse_timestamp :: "(cell \<Rightarrow> parsed) \<Rightarrow> dataframe \<Rightarrow> py_exn + dataframe" where
  "parse_timestamp parse df =
     (if has_column df ''Timestamp''
      then (case to_datetime parse (column df ''Timestamp'') of
              Inl e \<Rightarrow> Inl e
            | Inr cells \<Rightarrow> Inr (set_column df ''Timestamp'' Datetime64 cells))
      else Inr df)"

text \<open>
  \<^verbatim>\<open>
  def _df_to_records(df: pd.DataFrame):
      df = df.copy()
      for col in df.columns:
          if pd.api.types.is_datetime64_any_dtype(df[col]):
              df[col] = df[col].dt.strftime("%Y-%m-%dT%H:%M:%S")
      return df.where(pd.notnull(df), None).to_dict(orient="records")
  \<close>
  \<open>strftime\<close> is the format \<^verbatim>\<open>%Y-%m-%dT%H:%M:%S\<close> for years of four digits (pandas'
  timestamps lie between the years 1677 and 2262); it does not print the nanoseconds.
  \<open>strftime_cell\<close> is \<^verbatim>\<open>.dt.strftime\<close> on one cell (\<^verbatim>\<open>NaT\<close> gives \<^verbatim>\<open>NaN\<close>), and
  \<open>wire\<close> is what \<open>df_to_records\<close> does to one cell of a column of the given dtype:
  format, then replace every missing value by \<^verbatim>\<open>None\<close>.
\<close>

definition digit_char :: "nat \<Rightarrow> char" where
  "digit_char n = ''0123456789'' ! n"

definition pad2 :: "nat \<Rightarrow> string" where
  "pad2 n = [digit_char (n div 10 mod 10), digit_char (n mod 10)]"

definition pad4 :: "nat \<Rightarrow> string" where
  "pad4 n = [digit_char (n div 1000 mod 10), digit_char (n div 100 mod 10),
             digit_char (n div 10 mod 10), digit_char (n mod 10)]"

definition strftime :: "timestamp \<Rightarrow> string" where
  "strftime t =
     pad4 (year t) @ ''-'' @ pad2 (month t) @ ''-'' @ pad2 (day t) @ ''T'' @
     pad2 (hour t) @ '':'' @ pad2 (minute t) @ '':'' @ pad2 (second t)"

definition strftime_cell :: "cell \<Rightarrow> cell" where
  "strftime_cell c = (case c of TS t \<Rightarrow> Str (strftime t) | NaT \<Rightarrow> NaN | _ \<Rightarrow> c)"

definition notnull :: "cell \<Rightarrow> bool" where
  "notnull c = (case c of PyNone \<Rightarrow> False | NaN \<Rightarrow> False | NaT \<Rightarrow> False | _ \<Rightarrow> True)"

definition wire :: "dtype \<Rightarrow> cell \<Rightarrow> cell" where
  "wire dt c =
     (let v = (if dt = Datetime64 then strftime_cell c else c)
      in if notnull v then v else PyNone)"

definition df_to_records :: "dataframe \<Rightarrow> pyrecord list" where
  "df_to_records df =
     map (\<lambda>r. map (\<lambda>(c, dt). (c, wire dt (cell_of r c))) (columns df)) (rows df)"

text \<open>
  The path of the rows of a sheet to the response of \<^verbatim>\<open>/users-master\<close>:
  \<^verbatim>\<open>load_users_master\<close> is \<^verbatim>\<open>_parse_timestamp(pd.DataFrame(sheet.get_all_records()))\<close>
  and the endpoint returns \<^verbatim>\<open>_df_to_records\<close> of it.
\<close>

definition normalize :: "(cell \<Rightarrow> parsed) \<Rightarrow> pyrecord list \<Rightarrow> py_exn + pyrecord list" where
  "normalize parse recs =
     (case parse_timestamp parse (DataFrame recs) of
        Inl e \<Rightarrow> Inl e
      | Inr df \<Rightarrow> Inr (df_to_records df))"

text \<open>
  A reference parser for the canonical form \<^verbatim>\<open>YYYY-MM-DDTHH:MM:SS\<close> only, within the
  years that pandas' timestamps cover entirely. It is used to evaluate the model at
  concrete rows; the general theorems hold for every \<open>parse\<close>.
\<close>

definition digit_val :: "char \<Rightarrow> nat option" where
  "digit_val c =
     (if 48 \<le> (of_char c :: nat) \<and> (of_char c :: nat) \<le> 57
      then Some (of_char c - 48) else None)"

fun number :: "nat \<Rightarrow> string \<Rightarrow> nat option" where
  "number acc [] = Some acc"
| "number acc (c # cs) =
     (case digit_val c of None \<Rightarrow> None | Some d \<Rightarrow> number (10 * acc + d) cs)"

definition leap_year :: "nat \<Rightarrow> bool" where
  "leap_year y = (y mod 4 = 0 \<and> (y mod 100 \<noteq> 0 \<or> y mod 400 = 0))"

definition days_in_month :: "nat \<Rightarrow> nat \<Rightarrow> nat" where
  "days_in_month y m =
     (if m = 2 then (if leap_year y then 29 else 28)
      else if m = 4 \<or> m = 6 \<or> m = 9 \<or> m = 11 then 30 else 31)"

definition valid_timestamp :: "timestamp \<Rightarrow> bool" where
  "valid_timestamp t =
     (1678 \<le> year t \<and> year t \<le> 2261 \<and> 1 \<le> month t \<and> month t \<le> 12 \<and>
      1 \<le> day t \<and> day t \<le> days_in_month (year t) (month t) \<and>
      hour t < 24 \<and> minute t < 60 \<and> second t < 60 \<and> nanosecond t < 1000000000)"

definition field :: "string \<Rightarrow> nat \<Rightarrow> nat \<Rightarrow> nat option" where
  "field s i n = number 0 (take n (drop i s))"

definition parse_iso :: "string \<Rightarrow> timestamp option" where
  "parse_iso s =
     (if length s = 19 \<and> s ! 4 = CHR ''-'' \<and> s ! 7 = CHR ''-'' \<and> s ! 10 = CHR ''T'' \<and>
         s ! 13 = CHR '':'' \<and> s ! 16 = CHR '':''
      then
        (case field s 0 4 of None \<Rightarrow> None | Some y \<Rightarrow>
        (case field s 5 2 of None \<Rightarrow> None | Some mo \<Rightarrow>
        (case field s 8 2 of None \<Rightarrow> None | Some d \<Rightarrow>
        (case field s 11 2 of None \<Rightarrow> None | Some h \<Rightarrow>
        (case field s 14 2 of None \<Rightarrow> None | Some mi \<Rightarrow>
        (case field s 17 2 of None \<Rightarrow> None | Some se \<Rightarrow>
          (let t = \<lparr>year = y, month = mo, day = d, hour = h, minute = mi, second = se,
                    nanosecond = 0\<rparr>
           in if valid_timestamp t then Some t else None)))))))
      else None)"

definition iso_parser :: "cell \<Rightarrow> parsed" where
  "iso_parser c =
     (case c of
        Str s \<Rightarrow>
          if s = [] then Missing
          else (case parse_iso s of Some t \<Rightarrow> Instant t | None \<Rightarrow> Unparseable)
      | _ \<Rightarrow> Unparseable)"




text \<open>
  \<^verbatim>\<open>
  def summary():
      df = get_users_master()
      total = df.TelegramUserID.nunique()
      completed = df[df.RegistrationStatus == "Completed"].TelegramUserID.nunique()
      verified = df[df.EmailVerified == "Yes"].TelegramUserID.nunique()
      return {
          "total": total,
          "completed": completed,
          "verified": verified,
          "conversion": round(completed / total * 100, 2)
      }
  \<close>
  \<open>nunique\<close> counts the distinct values that are not missing, \<open>where_eq\<close> is the row filter
  \<^verbatim>\<open>df[df.Name == "value"]\<close>. Both counts are Python integers, so the division raises
  \<^verbatim>\<open>ZeroDivisionError\<close> for \<^verbatim>\<open>total == 0\<close>. The quotient is computed here on rationals and
  rounded half to even; Python computes it on binary floating point numbers.
\<close>

definition nunique :: "cell list \<Rightarrow> nat" where
  "nunique cs = length (remdups (filter notnull cs))"

definition where_eq :: "dataframe \<Rightarrow> string \<Rightarrow> string \<Rightarrow> dataframe" where
  "where_eq df name v = df\<lparr>rows := filter (\<lambda>r. cell_of r name = Str v) (rows df)\<rparr>"

definition round_half_even :: "rat \<Rightarrow> int" where
  "round_half_even x =
     (let f = \<lfloor>x\<rfloor>; d = x - of_int f
      in if d < 1 / 2 then f else if 1 / 2 < d then f + 1 else if even f then f else f + 1)"

definition py_round2 :: "rat \<Rightarrow> rat" where
  "py_round2 x = of_int (round_half_even (x * 100)) / 100"

record summary_result =
  sum_total :: nat
  sum_completed :: nat
  sum_verified :: nat
  sum_conversion :: rat

definition summary :: "dataframe \<Rightarrow> py_exn + summary_result" where
  "summary df =
     (case getattr df ''TelegramUserID'' of
        Inl e \<Rightarrow> Inl e
      | Inr ids \<Rightarrow>
     (case getattr df ''RegistrationStatus'' of
        Inl e \<Rightarrow> Inl e
      | Inr _ \<Rightarrow>
     (case getattr df ''EmailVerified'' of
        Inl e \<Rightarrow> Inl e
      | Inr _ \<Rightarrow>
         (let total = nunique ids;
              completed = nunique (column (where_eq df ''RegistrationStatus'' ''Completed'')
                                     ''TelegramUserID'');
              verified = nunique (column (where_eq df ''EmailVerified'' ''Yes'')
                                    ''TelegramUserID'')
          in if total = 0 then Inl ZeroDivisionError
             else Inr \<lparr>sum_total = total, sum_completed = completed, sum_verified = verified,
                       sum_conversion = py_round2 (of_nat completed / of_nat total * 100)\<rparr>))))"

text \<open>
  \<^verbatim>\<open>
  def user_data(username: str):
      df = get_users_master()
      u = df[df.TelegramUsername == username]
      last = u.sort_values("Timestamp").iloc[-1]
      return {
          "profile": {
              "name": last.FullName,
              "email": last.Email,
              "status": last.RegistrationStatus,
              "plan": last.InvestmentPlanSelected,
              "risk": last.RiskOptionSelected
          },
          "timeline": u.groupby(u.Timestamp.dt.date).size().to_dict()
      }
  \<close>
  \<open>sort_values\<close> orders the rows by the instants of the column, missing values last, and
  raises \<^verbatim>\<open>KeyError\<close> for a name that is no column (rows with equal instants keep their
  order here; pandas does not promise one). \<open>iloc_last\<close> is \<^verbatim>\<open>.iloc[-1]\<close>, which raises
  \<^verbatim>\<open>IndexError\<close> on a frame without rows. \<open>timeline_of\<close> is the grouping by calendar date:
  \<^verbatim>\<open>.dt\<close> raises \<^verbatim>\<open>AttributeError\<close> on a column that is not \<^verbatim>\<open>datetime64\<close>, rows without
  an instant fall in no group, and the groups come in ascending order of the date.
\<close>

type_synonym date = "nat \<times> nat \<times> nat"

definition sort_rank :: "cell \<Rightarrow> nat \<times> nat \<times> nat \<times> nat \<times> nat \<times> nat \<times> nat \<times> nat" where
  "sort_rank c =
     (case c of
        TS t \<Rightarrow> (0, year t, month t, day t, hour t, minute t, second t, nanosecond t)
      | _ \<Rightarrow> (1, 0, 0, 0, 0, 0, 0, 0))"

definition sort_values :: "dataframe \<Rightarrow> string \<Rightarrow> py_exn + dataframe" where
  "sort_values df name =
     (if has_column df name
      then Inr (df\<lparr>rows := sort_key (\<lambda>r. sort_rank (cell_of r name)) (rows df)\<rparr>)
      else Inl KeyError)"

definition iloc_last :: "dataframe \<Rightarrow> py_exn + pyrecord" where
  "iloc_last df = (case rev (rows df) of [] \<Rightarrow> Inl IndexError | r # _ \<Rightarrow> Inr r)"

definition row_attr :: "dataframe \<Rightarrow> pyrecord \<Rightarrow> string \<Rightarrow> py_exn + cell" where
  "row_attr df r name = (if has_column df name then Inr (cell_of r name) else Inl AttributeError)"

definition dates_of :: "cell list \<Rightarrow> date list" where
  "dates_of cs = concat (map (\<lambda>c. case c of TS t \<Rightarrow> [(year t, month t, day t)] | _ \<Rightarrow> []) cs)"

definition group_sizes :: "date list \<Rightarrow> (date \<times> nat) list" where
  "group_sizes ds = map (\<lambda>d. (d, count_list ds d)) (sort (remdups ds))"

definition timeline_of :: "dataframe \<Rightarrow> py_exn + (date \<times> nat) list" where
  "timeline_of u =
     (case getattr u ''Timestamp'' of
        Inl e \<Rightarrow> Inl e
      | Inr cs \<Rightarrow>
          if map_of (columns u) ''Timestamp'' = Some Datetime64
          then Inr (group_sizes (dates_of cs))
          else Inl AttributeError)"

record profile =
  profile_name :: cell
  profile_email :: cell
  profile_status :: cell
  profile_plan :: cell
  profile_risk :: cell

record user_result =
  user_profile :: profile
  user_timeline :: "(date \<times> nat) list"

definition user_data :: "dataframe \<Rightarrow> string \<Rightarrow> py_exn + user_result" where
  "user_data df username =
     (case getattr df ''TelegramUsername'' of
        Inl e \<Rightarrow> Inl e
      | Inr _ \<Rightarrow>
     (let u = where_eq df ''TelegramUsername'' username in
     (case sort_values u ''Timestamp'' of
        Inl e \<Rightarrow> Inl e
      | Inr by_time \<Rightarrow>
     (case iloc_last by_time of
        Inl e \<Rightarrow> Inl e
      | Inr last_row \<Rightarrow>
     (case row_attr u last_row ''FullName'' of Inl e \<Rightarrow> Inl e | Inr n \<Rightarrow>
     (case row_attr u last_row ''Email'' of Inl e \<Rightarrow> Inl e | Inr em \<Rightarrow>
     (case row_attr u last_row ''RegistrationStatus'' of Inl e \<Rightarrow> Inl e | Inr st \<Rightarrow>
     (case row_attr u last_row ''InvestmentPlanSelected'' of Inl e \<Rightarrow> Inl e | Inr pl \<Rightarrow>
     (case row_attr u last_row ''RiskOptionSelected'' of Inl e \<Rightarrow> Inl e | Inr ri \<Rightarrow>
     (case timeline_of u of
        Inl e \<Rightarrow> Inl e
      | Inr days \<Rightarrow>
          Inr \<lparr>user_profile = \<lparr>profile_name = n, profile_email = em, profile_status = st,
                                profile_plan = pl, profile_risk = ri\<rparr>,
                user_timeline = days\<rparr>))))))))))"

text \<open>Concrete rows and frames at which the model is evaluated.\<close>

definition scenario_users :: "pyrecord list" where
  "scenario_users =
     [[(''TelegramUserID'', Str ''u1''), (''RegistrationStatus'', Str ''Completed''),
       (''EmailVerified'', Str ''Yes'')],
      [(''TelegramUserID'', Str ''u2''), (''RegistrationStatus'', Str ''Pending''),
       (''EmailVerified'', Str ''No'')]]"

definition no_users :: dataframe where
  "no_users = \<lparr>columns = [(''TelegramUserID'', Object), (''RegistrationStatus'', Object),
                           (''EmailVerified'', Object)], rows = []\<rparr>"

definition profile_rows :: "pyrecord list" where
  "profile_rows =
     [[(''TelegramUsername'', Str ''ann''), (''FullName'', Str ''Ann Lee''),
       (''Email'', Str ''ann@example.org''), (''RegistrationStatus'', Str ''Pending''),
       (''InvestmentPlanSelected'', Str ''Basic''), (''RiskOptionSelected'', Str ''Low''),
       (''Timestamp'', Str ''2024-01-05T10:00:00'')],
      [(''TelegramUsername'', Str ''ann''), (''FullName'', Str ''Ann Lee''),
       (''Email'', Str ''ann@example.org''), (''RegistrationStatus'', Str ''Completed''),
       (''InvestmentPlanSelected'', Str ''Growth''), (''RiskOptionSelected'', Str ''High''),
       (''Timestamp'', Str ''2024-01-06T09:30:00'')]]"

definition malformed_rows :: "pyrecord list" where
  "malformed_rows =
     [[(''TelegramUsername'', Str ''ann''), (''Timestamp'', Str ''2024-01-05T10:00:00'')],
      [(''TelegramUsername'', Str ''bob''), (''Timestamp'', Str ''not a date'')]]"


definition jan5 :: timestamp where
  "jan5 = \<lparr>year = 2024, month = 1, day = 5, hour = 10, minute = 0, second = 0, nanosecond = 0\<rparr>"

definition jan6 :: timestamp where
  "jan6 = \<lparr>year = 2024, month = 1, day = 6, hour = 9, minute = 30, second = 0, nanosecond = 0\<rparr>"

definition profile_frame :: dataframe where
  "profile_frame =
     \<lparr>columns = [(''TelegramUsername'', Object), (''FullName'', Object), (''Email'', Object),
                 (''RegistrationStatus'', Object), (''InvestmentPlanSelected'', Object),
                 (''RiskOptionSelected'', Object), (''Timestamp'', Datetime64)],
      rows =
        [[(''TelegramUsername'', Str ''ann''), (''FullName'', Str ''Ann Lee''),
          (''Email'', Str ''ann@example.org''), (''RegistrationStatus'', Str ''Pending''),
          (''InvestmentPlanSelected'', Str ''Basic''), (''RiskOptionSelected'', Str ''Low''),
          (''Timestamp'', TS jan5)],
         [(''TelegramUsername'', Str ''ann''), (''FullName'', Str ''Ann Lee''),
          (''Email'', Str ''ann@example.org''), (''RegistrationStatus'', Str ''Completed''),
          (''InvestmentPlanSelected'', Str ''Growth''), (''RiskOptionSelected'', Str ''High''),
          (''Timestamp'', TS jan6)]]\<rparr>"




definition converted :: "(cell \<Rightarrow> parsed) \<Rightarrow> cell \<Rightarrow> cell" where
  "converted parse c = (case to_datetime_cell parse c of Inr v \<Rightarrow> v | Inl _ \<Rightarrow> NaT)"


section \<open>Properties of the cache\<close>

lemma get_cached_hit:
  assumes "c key = Some en" and "data en = Some d" and "now - ts en \<le> real_of_int ttl"
  shows "get_cached ttl key loader now (c, w) = (Inr d, c, w)"
  using assms by (simp add: get_cached_def)

lemma get_cached_miss:
  assumes "c key = Some en" and "data en = None \<or> now - ts en > real_of_int ttl"
  shows "get_cached ttl key loader now (c, w) = refresh key loader now (c, w)"
  using assms by (auto simp: get_cached_def split: option.splits)

lemma get_cached_success_stored:
  assumes "get_cached ttl key loader now (c, w) = (Inr d, c', w')"
  shows "\<exists>en. c' key = Some en \<and> data en = Some d"
  using assms
  by (auto simp: get_cached_def refresh_def split: option.splits if_splits prod.splits sum.splits)

text \<open>
  C1 (as amended). When the loader fails, the value of \<open>get_cached\<close> is the loader's
  exception whenever a refresh is attempted, that is, when no snapshot is stored or when
  the stored one is older than the TTL; having a previous snapshot does not turn the
  failure into a result. The stored snapshot is returned only when it is young enough
  for no refresh to be attempted.
\<close>

theorem get_cached_failure_propagates:
  assumes "c key = Some en" and "loader w = (Inl e, w')"
  shows "fst (get_cached ttl key loader now (c, w)) =
           (case data en of
              None \<Rightarrow> Inl e
            | Some d \<Rightarrow> if now - ts en > real_of_int ttl then Inl e else Inr d)"
  using assms by (auto simp: get_cached_def refresh_def split: option.splits)

theorem get_cached_failure_propagates_witness:
  "fst (get_cached 600 ''users_master'' failing_loader 2000
          (stored_cache 1000 ''stored'', 0)) =
     (case data \<lparr>ts = 1000, data = Some ''stored''\<rparr> of
        None \<Rightarrow> Inl SourceUnavailable
      | Some d \<Rightarrow>
          if 2000 - ts \<lparr>ts = 1000, data = Some ''stored''\<rparr> > real_of_int 600
          then Inl SourceUnavailable else Inr d)"
  by (rule get_cached_failure_propagates) (simp_all add: stored_cache_def failing_loader_def)

text \<open>
  C1 as stated fails: a snapshot fetched at time 1000 is stored, the TTL is 600 seconds,
  the call is made at time 2000 and the loader raises. The call raises as well instead
  of returning the stored snapshot.
\<close>

theorem stale_snapshot_not_served_counterexample:
  "fst (get_cached 600 ''users_master'' failing_loader 2000
          (stored_cache 1000 ''stored'', 0)) = Inl SourceUnavailable"
  by (simp add: get_cached_def refresh_def stored_cache_def failing_loader_def)

text \<open>
  C2 (as amended). After a successful call, a second call on the same key, with no write
  in between, returns the identical snapshot and leaves cache and world untouched for
  every loader it is given (so the loader is not run), provided the second call is made
  at most TTL seconds after the fetch time of the stored entry.
\<close>

theorem get_cached_again_within_ttl:
  assumes "get_cached ttl key loader now (c, w) = (Inr d, c', w')"
      and "c' key = Some en" and "later - ts en \<le> real_of_int ttl"
  shows "get_cached ttl key other_loader later (c', w') = (Inr d, c', w')"
proof -
  from get_cached_success_stored[OF assms(1)] assms(2) have "data en = Some d"
    by auto
  then show ?thesis
    using assms(2,3) by (simp add: get_cached_hit)
qed

theorem get_cached_again_within_ttl_witness:
  "get_cached 600 ''users_master'' failing_loader 1500
     (initial_cache(''users_master'' \<mapsto> \<lparr>ts = 1000, data = Some ''fresh''\<rparr>), Suc 0) =
   (Inr ''fresh'', initial_cache(''users_master'' \<mapsto> \<lparr>ts = 1000, data = Some ''fresh''\<rparr>), Suc 0)"
  by (rule get_cached_again_within_ttl[where loader = fresh_loader and now = 1000
        and c = initial_cache and w = 0 and en = "\<lparr>ts = 1000, data = Some ''fresh''\<rparr>"])
     (simp_all add: get_cached_def refresh_def initial_cache_def fresh_loader_def)

text \<open>
  C2 as stated fails: the stored snapshot was fetched at time 0 and the TTL is 600. A call
  at time 500 returns it; a second call at time 700, 200 seconds after the first one and
  with no write in between, runs the loader and returns another snapshot.
\<close>

theorem two_calls_within_ttl_counterexample:
  "fst (get_cached 600 ''users_master'' fresh_loader 500 (stored_cache 0 ''stored'', 0))
     = Inr ''stored'' \<and>
   get_cached 600 ''users_master'' fresh_loader 700
     (snd (get_cached 600 ''users_master'' fresh_loader 500 (stored_cache 0 ''stored'', 0)))
     = (Inr ''fresh'', stored_cache 700 ''fresh'', Suc 0)"
  by (simp add: get_cached_def refresh_def stored_cache_def fresh_loader_def)

text \<open>
  C3 (as amended). For a key of the cache table, \<open>get_cached\<close> runs the loader exactly
  when no snapshot is stored or the stored snapshot is older than the TTL, and then, if
  the loader returns \<open>d\<close>, it returns \<open>d\<close> and stores it with the fetch time \<open>now\<close>.
  Whether the stored record sequence is empty plays no part.
\<close>

theorem get_cached_refresh_iff:
  assumes "c key = Some en"
  shows "calls (get_cached ttl key (counting loader) now (c, (n, w))) =
           (if data en = None \<or> now - ts en > real_of_int ttl then Suc n else n) \<and>
         (\<forall>d w'. (data en = None \<or> now - ts en > real_of_int ttl) \<longrightarrow> loader w = (Inr d, w') \<longrightarrow>
            get_cached ttl key loader now (c, w) =
              (Inr d, c(key \<mapsto> \<lparr>ts = now, data = Some d\<rparr>), w'))"
  using assms
  by (auto simp: get_cached_def refresh_def calls_def counting_def
           split: option.splits prod.splits sum.splits)

theorem get_cached_refresh_iff_witness:
  "calls (get_cached 600 ''users_master'' (counting fresh_loader) 2000
            (stored_cache 1000 ''stored'', (0, 0))) = Suc 0 \<and>
   get_cached 600 ''users_master'' fresh_loader 2000 (stored_cache 1000 ''stored'', 0) =
     (Inr ''fresh'', stored_cache 2000 ''fresh'', Suc 0)"
  using get_cached_refresh_iff[of "stored_cache 1000 ''stored''" "''users_master''"
      "\<lparr>ts = 1000, data = Some ''stored''\<rparr>" 600 fresh_loader 2000 0 0]
  by (simp add: stored_cache_def fresh_loader_def)

text \<open>
  C3 as stated fails: the stored snapshot is an empty record sequence fetched at time 100;
  at time 200 (TTL 600) the call returns the empty snapshot and does not run the loader.
\<close>

theorem empty_snapshot_not_refreshed_counterexample:
  "get_cached 600 ''users_master'' (counting (\<lambda>w. (Inr [''row''], w))) 200
     (initial_cache(''users_master'' \<mapsto> \<lparr>ts = 100, data = Some []\<rparr>), (0, ())) =
   (Inr [], initial_cache(''users_master'' \<mapsto> \<lparr>ts = 100, data = Some []\<rparr>), (0, ()))"
  by (simp add: get_cached_def)

text \<open>
  C10. If the loader raises during a call of \<open>get_cached\<close> (the key is in the table and a
  refresh is attempted), the call raises the loader's exception and the cache is the one
  before the call: neither the stored data nor the fetch time of the entry changed.
\<close>

theorem get_cached_loader_failure_atomic:
  assumes "c key = Some en" and "data en = None \<or> now - ts en > real_of_int ttl"
      and "loader w = (Inl e, w')"
  shows "get_cached ttl key loader now (c, w) = (Inl e, c, w')"
  using assms by (auto simp: get_cached_def refresh_def split: option.splits)

theorem get_cached_loader_failure_atomic_witness:
  "get_cached 600 ''users_master'' failing_loader 2000 (stored_cache 1000 ''stored'', 0) =
     (Inl SourceUnavailable, stored_cache 1000 ''stored'', Suc 0)"
  by (rule get_cached_loader_failure_atomic[where en = "\<lparr>ts = 1000, data = Some ''stored''\<rparr>"])
     (simp_all add: stored_cache_def failing_loader_def)

section \<open>Properties of the dashboard script\<close>

lemma bump_counted:
  assumes "key \<notin> set object_prototype" and "counted m key n"
  shows "counted (bump rt m k) key (if k = key then Suc n else n)"
proof (cases "k = key")
  case True
  with assms have "k \<noteq> ''__proto__''" by (auto simp: object_prototype_def)
  with True assms show ?thesis
    by (cases "n = 0") (auto simp: counted_def bump_def Let_def)
next
  case False
  with assms show ?thesis by (auto simp: counted_def bump_def Let_def)
qed

lemma fold_bump_counted:
  assumes "key \<notin> set object_prototype" and "counted m key n"
  shows "counted (fold (\<lambda>r counts. bump rt counts (f r)) rs m) key
           (n + length (filter (\<lambda>r. f r = key) rs))"
  using assms(2)
proof (induction rs arbitrary: m n)
  case Nil
  then show ?case by simp
next
  case (Cons r rs)
  have step: "counted (bump rt m (f r)) key (if f r = key then Suc n else n)"
    by (rule bump_counted[OF assms(1) Cons.prems])
  show ?case
    using Cons.IH[OF step] by (cases "f r = key") simp_all
qed

lemma groupCounts_counts:
  assumes "key \<notin> set object_prototype" and "k \<noteq> []"
  shows "\<exists>counts. groupCounts rt rs (Column k) = Some counts \<and>
           counted counts key (length (filter (\<lambda>r. group_key rt (js_get r k) = key) rs))"
proof -
  have "counted Map.empty key 0"
    by (simp add: counted_def)
  from fold_bump_counted[OF assms(1) this, of rt "\<lambda>r. group_key rt (js_get r k)" rs]
  show ?thesis
    using assms(2) by (simp add: groupCounts_def property_key_def)
qed

lemma groupCounts_risk_example:
  "groupCounts rt risk_rows (Column ''Risk'') =
     Some [''High'' \<mapsto> Count 1, ''Unknown'' \<mapsto> Count 2]"
  by (simp add: groupCounts_def risk_rows_def property_key_def js_get_def group_key_def
      js_String_def trim_def is_whitespace_def bump_def object_prototype_def numeral_2_eq_2)

text \<open>
  C6. \<open>groupCounts\<close> gives the example of the specification (\<open>groupCounts_risk_example\<close>)
  and counts every key that is not the name of a property of \<^verbatim>\<open>Object.prototype\<close>
  (\<open>groupCounts_counts\<close>). For a value such as \<^verbatim>\<open>"constructor"\<close> the script reads the
  inherited function where it expects a count: the entry becomes the text of that function
  followed by \<^verbatim>\<open>1\<close>, not the number of records.
\<close>

theorem groupCounts_inherited_key:
  "groupCounts rt [[(''Risk'', JStr ''constructor'')]] (Column ''Risk'') =
     Some [''constructor'' \<mapsto> Text (builtin_to_string rt ''constructor'' @ ''1'')]"
  by (simp add: groupCounts_def property_key_def js_get_def group_key_def js_String_def
      trim_def is_whitespace_def bump_def object_prototype_def)

lemma key_map_fold:
  "fold (\<lambda>k m. m(normalizeKey k \<mapsto> k)) keys m0 n =
     (case filter (\<lambda>k. normalizeKey k = n) keys of [] \<Rightarrow> m0 n | ks \<Rightarrow> Some (last ks))"
  by (induction keys arbitrary: m0) (auto split: list.splits)

lemma key_map_lookup:
  "key_map keys n =
     (case filter (\<lambda>k. normalizeKey k = n) keys of [] \<Rightarrow> None | ks \<Rightarrow> Some (last ks))"
  by (simp add: key_map_def key_map_fold)

lemma first_hit_key_map:
  assumes "[] \<notin> set keys" and "\<forall>c \<in> set cs. normalizeKey c \<notin> set object_prototype"
  shows "first_hit (key_map keys) cs =
     (case find (\<lambda>c. normalizeKey c \<in> set (map normalizeKey keys)) cs of
        None \<Rightarrow> Null
      | Some c \<Rightarrow> Column (last (filter (\<lambda>k. normalizeKey k = normalizeKey c) keys)))"
  using assms(2)
proof (induction cs)
  case Nil
  then show ?case by simp
next
  case (Cons c cs)
  show ?case
  proof (cases "filter (\<lambda>k. normalizeKey k = normalizeKey c) keys")
    case Nil
    then have "normalizeKey c \<notin> set (map normalizeKey keys)"
      by (auto simp: filter_empty_conv)
    moreover from Nil have "key_map keys (normalizeKey c) = None"
      by (simp add: key_map_lookup)
    ultimately show ?thesis
      using Cons by simp
  next
    case (Cons k ks)
    then have mem: "normalizeKey c \<in> set (map normalizeKey keys)"
      by (metis (mono_tags, lifting) filter_empty_conv image_eqI list.distinct(1) set_map)
    have "last (k # ks) \<in> set (filter (\<lambda>k. normalizeKey k = normalizeKey c) keys)"
      using Cons by (metis last_in_set list.distinct(1))
    then have "last (k # ks) \<in> set keys"
      by simp
    with assms(1) have ne: "last (k # ks) \<noteq> []"
      by auto
    from Cons have "key_map keys (normalizeKey c) = Some (last (k # ks))"
      by (simp add: key_map_lookup)
    with ne mem Cons show ?thesis
      by simp
  qed
qed

text \<open>
  C7 (as amended). When no column name is empty and no candidate normalizes to the name
  of an inherited property, \<open>findColumn\<close> looks for the first candidate, by position,
  whose normalized form is the normalized form of a key of the first row, and returns
  the last such key (the actual column name, not the candidate); it returns \<^verbatim>\<open>null\<close>
  when no candidate matches or there are no rows.
\<close>

theorem findColumn_first_matching_candidate:
  assumes "[] \<notin> set (map fst r)"
      and "\<forall>c \<in> set candidates. normalizeKey c \<notin> set object_prototype"
  shows "findColumn (r # rest) candidates =
     (case find (\<lambda>c. normalizeKey c \<in> set (map normalizeKey (map fst r))) candidates of
        None \<Rightarrow> Null
      | Some c \<Rightarrow> Column (last (filter (\<lambda>k. normalizeKey k = normalizeKey c) (map fst r)))) \<and>
     findColumn [] candidates = Null"
  using first_hit_key_map[OF assms] by (simp add: findColumn_def)

theorem findColumn_first_matching_candidate_witness:
  "findColumn [[(''Investment_Plan Selected'', JStr ''Growth'')]] [''InvestmentPlanSelected''] =
     Column ''Investment_Plan Selected''"
proof -
  have h1: "[] \<notin> set (map fst [(''Investment_Plan Selected'', JStr ''Growth'')])"
    by simp
  have h2: "\<forall>c \<in> set [''InvestmentPlanSelected'']. normalizeKey c \<notin> set object_prototype"
    by code_simp
  have rhs: "(case find (\<lambda>c. normalizeKey c \<in> set (map normalizeKey
                 (map fst [(''Investment_Plan Selected'', JStr ''Growth'')])))
               [''InvestmentPlanSelected''] of
        None \<Rightarrow> Null
      | Some c \<Rightarrow> Column (last (filter (\<lambda>k. normalizeKey k = normalizeKey c)
                     (map fst [(''Investment_Plan Selected'', JStr ''Growth'')])))) =
     Column ''Investment_Plan Selected''"
    by code_simp
  show ?thesis
    using findColumn_first_matching_candidate[OF h1 h2, of "[]"] rhs by simp
qed

text \<open>
  C7 as stated fails at three inputs: the value returned for the example of the
  specification is the column name, not the candidate; the candidate \<^verbatim>\<open>Constructor\<close>
  matches no column of a row whose only key is \<^verbatim>\<open>Name\<close>, yet the result is the
  inherited \<^verbatim>\<open>constructor\<close> and not \<^verbatim>\<open>null\<close>; and the candidate \<^verbatim>\<open>_\<close> has the
  normalized form of the empty column name, yet the result is \<^verbatim>\<open>null\<close>.
\<close>

theorem findColumn_counterexample:
  "findColumn [[(''Investment_Plan Selected'', JStr ''Growth'')]] [''InvestmentPlanSelected''] \<noteq>
     Column ''InvestmentPlanSelected'' \<and>
   findColumn [[(''Name'', JStr ''Ann'')]] [''Constructor''] = Builtin ''constructor'' \<and>
   normalizeKey [] = normalizeKey ''_'' \<and>
   findColumn [[([], JStr ''Ann'')]] [''_''] = Null"
  by code_simp

section \<open>Properties of the data frame functions\<close>



lemma cell_of_update: "cell_of (AList.update k v r) k' = (if k' = k then v else cell_of r k')"
  by (simp add: cell_of_def update_conv')













lemma to_datetime_cell_error: "to_datetime_cell parse c = Inl e \<Longrightarrow> e = ValueError"
  by (auto simp: to_datetime_cell_def split: cell.splits parsed.splits)

lemma to_datetime_eq:
  "to_datetime parse cs =
     (if \<exists>c \<in> set cs. to_datetime_cell parse c = Inl ValueError then Inl ValueError
      else Inr (map (converted parse) cs))"
proof (induction cs)
  case Nil
  then show ?case by simp
next
  case (Cons c cs)
  show ?case
  proof (cases "to_datetime_cell parse c")
    case (Inl e)
    then show ?thesis
      using to_datetime_cell_error[OF Inl] by simp
  next
    case (Inr v)
    then show ?thesis
      using Cons by (simp add: converted_def)
  qed
qed














lemma length_to_datetime: "to_datetime parse cs = Inr vs \<Longrightarrow> length vs = length cs"
  by (auto simp: to_datetime_eq split: if_splits)

lemma column_set_column:
  assumes "length cells = length (rows df)"
  shows "column (set_column df k d cells) k' = (if k' = k then cells else column df k')"
proof -
  have "map (\<lambda>r. cell_of r k') (map2 (\<lambda>r v. AList.update k v r) (rows df) cells) =
        map (\<lambda>(r, v). if k' = k then v else cell_of r k') (zip (rows df) cells)"
    by (simp add: cell_of_update comp_def case_prod_beta)
  also have "\<dots> = (if k' = k then map snd (zip (rows df) cells)
                    else map (\<lambda>r. cell_of r k') (map fst (zip (rows df) cells)))"
    by (simp add: case_prod_beta comp_def)
  also have "\<dots> = (if k' = k then cells else column df k')"
    using assms by (simp add: column_def)
  finally show ?thesis
    by (simp add: column_def set_column_def)
qed

text \<open>
  C5 (as amended). For a frame with a \<^verbatim>\<open>Timestamp\<close> column, \<open>parse_timestamp\<close> is all or
  nothing: if the value of one row cannot be converted, the call raises \<^verbatim>\<open>ValueError\<close>
  and no frame is returned; otherwise the column holds the converted value of every row
  and every other column is unchanged.
\<close>

theorem parse_timestamp_all_or_nothing:
  assumes "has_column df ''Timestamp''"
  shows "if \<exists>c \<in> set (column df ''Timestamp''). to_datetime_cell parse c = Inl ValueError
         then parse_timestamp parse df = Inl ValueError
         else \<exists>df'. parse_timestamp parse df = Inr df' \<and>
                column df' ''Timestamp'' = map (converted parse) (column df ''Timestamp'') \<and>
                (\<forall>k. k \<noteq> ''Timestamp'' \<longrightarrow> column df' k = column df k)"
proof (cases "\<exists>c \<in> set (column df ''Timestamp''). to_datetime_cell parse c = Inl ValueError")
  case True
  then show ?thesis
    using assms by (simp add: parse_timestamp_def to_datetime_eq)
next
  case False
  let ?cells = "map (converted parse) (column df ''Timestamp'')"
  have len: "length ?cells = length (rows df)"
    by (simp add: column_def)
  have "parse_timestamp parse df = Inr (set_column df ''Timestamp'' Datetime64 ?cells)"
    using assms False by (simp add: parse_timestamp_def to_datetime_eq)
  moreover have "column (set_column df ''Timestamp'' Datetime64 ?cells) ''Timestamp'' = ?cells"
    using column_set_column[OF len] by simp
  moreover have "\<forall>k. k \<noteq> ''Timestamp'' \<longrightarrow>
      column (set_column df ''Timestamp'' Datetime64 ?cells) k = column df k"
    using column_set_column[OF len] by simp
  ultimately show ?thesis
    using False by auto
qed









lemmas frame_eval = DataFrame_def has_column_def column_def cell_of_def getattr_def Let_def
lemmas iso_eval = to_datetime_cell_def iso_parser_def parse_iso_def field_def digit_val_def
  valid_timestamp_def days_in_month_def leap_year_def converted_def

lemma load_profile_rows: "parse_timestamp iso_parser (DataFrame profile_rows) = Inr profile_frame"
  by (simp add: parse_timestamp_def set_column_def profile_rows_def profile_frame_def jan5_def
      jan6_def frame_eval iso_eval)

theorem parse_timestamp_all_or_nothing_witness:
  "parse_timestamp iso_parser (DataFrame malformed_rows) = Inl ValueError"
proof -
  have h: "has_column (DataFrame malformed_rows) ''Timestamp''"
    by (simp add: malformed_rows_def frame_eval)
  have bad: "\<exists>c \<in> set (column (DataFrame malformed_rows) ''Timestamp'').
      to_datetime_cell iso_parser c = Inl ValueError"
    by (simp add: malformed_rows_def frame_eval iso_eval)
  from parse_timestamp_all_or_nothing[OF h, of iso_parser] show ?thesis
    unfolding if_P[OF bad] .
qed

text \<open>
  C5 as stated fails: of two rows the first holds a timestamp that converts, the second
  the text \<^verbatim>\<open>not a date\<close>; normalization of the dataset raises instead of leaving the
  second field as it is.
\<close>

theorem malformed_timestamp_aborts_counterexample:
  "normalize iso_parser malformed_rows = Inl ValueError \<and>
   to_datetime_cell iso_parser (Str ''2024-01-05T10:00:00'') = Inr (TS jan5)"
  by (simp add: normalize_def parse_timestamp_def malformed_rows_def jan5_def frame_eval iso_eval)



lemma summary_scenario:
  "summary (DataFrame scenario_users) =
     Inr \<lparr>sum_total = 2, sum_completed = 1, sum_verified = 1, sum_conversion = 50\<rparr>"
  by (simp add: summary_def scenario_users_def where_eq_def nunique_def notnull_def
      py_round2_def round_half_even_def frame_eval)

lemma summary_zero_total:
  assumes "has_column df ''TelegramUserID''" and "has_column df ''RegistrationStatus''"
      and "has_column df ''EmailVerified''" and "nunique (column df ''TelegramUserID'') = 0"
  shows "summary df = Inl ZeroDivisionError"
  using assms by (simp add: summary_def getattr_def Let_def)

text \<open>
  C4. \<open>summary\<close> does not guard the division: for a frame with the three columns and no
  row the count \<open>total\<close> is 0 and the call raises \<^verbatim>\<open>ZeroDivisionError\<close>; for the frame of
  an empty sheet, which has no columns, it raises \<^verbatim>\<open>AttributeError\<close>. No value standing
  for an undefined ratio is returned. (\<open>summary_scenario\<close> is the scenario of the
  specification, \<open>summary_zero_total\<close> the general case.)
\<close>

theorem summary_no_users:
  "summary no_users = Inl ZeroDivisionError \<and> summary (DataFrame []) = Inl AttributeError"
  by (simp add: summary_def no_users_def where_eq_def nunique_def notnull_def frame_eval)

lemma user_data_no_match:
  assumes "has_column df ''TelegramUsername''" and "has_column df ''Timestamp''"
      and "\<forall>r \<in> set (rows df). cell_of r ''TelegramUsername'' \<noteq> Str username"
  shows "user_data df username = Inl IndexError"
proof -
  have "filter (\<lambda>r. cell_of r ''TelegramUsername'' = Str username) (rows df) = []"
    using assms(3) by (simp add: filter_empty_conv)
  then show ?thesis
    using assms(1,2)
    by (simp add: user_data_def getattr_def where_eq_def sort_values_def has_column_def
        iloc_last_def Let_def)
qed

lemma user_data_ann:
  "user_data profile_frame ''ann'' =
     Inr \<lparr>user_profile = \<lparr>profile_name = Str ''Ann Lee'', profile_email = Str ''ann@example.org'',
                           profile_status = Str ''Completed'', profile_plan = Str ''Growth'',
                           profile_risk = Str ''High''\<rparr>,
          user_timeline = [((2024, 1, 5), 1), ((2024, 1, 6), 1)]\<rparr>"
  by (simp add: user_data_def profile_frame_def jan5_def jan6_def where_eq_def sort_values_def
      sort_rank_def iloc_last_def row_attr_def timeline_of_def dates_of_def group_sizes_def
      frame_eval)

text \<open>
  C9. For a user name that matches no row, \<open>user_data\<close> raises \<^verbatim>\<open>IndexError\<close> at
  \<^verbatim>\<open>.iloc[-1]\<close> instead of returning an empty timeline (\<open>user_data_no_match\<close> is the
  general case, \<open>user_data_ann\<close> a user with two rows).
\<close>

theorem user_data_unknown_user:
  "user_data profile_frame ''nobody'' = Inl IndexError"
  by (simp add: user_data_def profile_frame_def where_eq_def sort_values_def iloc_last_def
      frame_eval)

end
